theory Spec2Isabelle
  imports Main
begin

section \<open>Text\<close>

text \<open>
  Python \<open>str\<close> values are modelled as HOL strings, and the theory is about ASCII text:
  a HOL string stands for the Python string of the same ASCII characters. The character
  operations below are the ASCII part of Python's: letters are \<open>A-Z\<close> and \<open>a-z\<close>, digits
  are \<open>0-9\<close>, and white space is what \<open>str.strip()\<close> removes among the ASCII characters
  (tab, line feed, vertical tab, form feed, carriage return, the four separators
  0x1C-0x1F and the space). A character outside ASCII is left alone by the case mappings
  and belongs to no class.
\<close>

definition upper_letters :: string where
  "upper_letters = ''ABCDEFGHIJKLMNOPQRSTUVWXYZ''"

definition lower_letters :: string where
  "lower_letters = ''abcdefghijklmnopqrstuvwxyz''"

definition digits :: string where
  "digits = ''0123456789''"

definition lower_char :: "char \<Rightarrow> char" where
  "lower_char c = (case map_of (zip upper_letters lower_letters) c of Some d \<Rightarrow> d | None \<Rightarrow> c)"

definition upper_char :: "char \<Rightarrow> char" where
  "upper_char c = (case map_of (zip lower_letters upper_letters) c of Some d \<Rightarrow> d | None \<Rightarrow> c)"

definition lower :: "string \<Rightarrow> string" where
  "lower s = map lower_char s"

definition upper :: "string \<Rightarrow> string" where
  "upper s = map upper_char s"

definition is_space :: "char \<Rightarrow> bool" where
  "is_space c = (c \<in> set [CHR 0x09, CHR 0x0A, CHR 0x0B, CHR 0x0C, CHR 0x0D,
                            CHR 0x1C, CHR 0x1D, CHR 0x1E, CHR 0x1F, CHR 0x20])"

definition strip :: "string \<Rightarrow> string" where
  "strip s = rev (dropWhile is_space (rev (dropWhile is_space s)))"

definition startswith :: "string \<Rightarrow> string \<Rightarrow> bool" where
  "startswith s p = (take (length p) s = p)"

definition endswith :: "string \<Rightarrow> string \<Rightarrow> bool" where
  "endswith s p = (length p \<le> length s \<and> drop (length s - length p) s = p)"

text \<open>\<open>s.split(d)\<close> for a one-character separator: the empty text gives one empty piece.\<close>

fun split :: "char \<Rightarrow> string \<Rightarrow> string list" where
  "split d [] = [[]]"
| "split d (c # cs) =
     (if c = d then [] # split d cs
      else (case split d cs of [] \<Rightarrow> [[c]] | x # xs \<Rightarrow> (c # x) # xs))"

text \<open>\<open>sep.join(parts)\<close>.\<close>

fun join :: "string \<Rightarrow> string list \<Rightarrow> string" where
  "join sep [] = []"
| "join sep [x] = x"
| "join sep (x # y # ys) = x @ sep @ join sep (y # ys)"

text \<open>The decimal text of a natural number, as an f-string prints an \<open>int\<close>.\<close>

function show_nat :: "nat \<Rightarrow> string" where
  "show_nat n = (if n < 10 then [digits ! n] else show_nat (n div 10) @ [digits ! (n mod 10)])"
  by pat_completeness auto
termination
  by (relation "measure id") auto

section \<open>Errors\<close>

text \<open>
  Every exception the code can raise is a value. \<open>DriverError\<close> is whatever the
  warehouse driver, the bulk writer or the parquet writer raises; it goes through the
  code untouched. \<open>Unmodelled\<close> marks a format field whose outcome in Python depends on
  more than this model tracks (attribute or index access, a conversion, a format
  specification): the model says nothing about such a call.
\<close>

datatype error =
    FileNotFoundError string
  | ValueError string
  | KeyError string
  | IndexError
  | TypeError
  | AttributeError
  | DriverError string
  | Unmodelled

section \<open>Variable substitution\<close>

text \<open>The characters \<open>\w\<close> matches.\<close>

definition word_char :: "char \<Rightarrow> bool" where
  "word_char c = (c \<in> set (lower_letters @ upper_letters @ digits @ ''_''))"

text \<open>
  \<open>format_variables\<close>: \<open>re.sub(r"\$(\w+)", r"{\1}", query)\<close>. The scan goes from the left;
  at a dollar sign followed by at least one word character the longest run of word
  characters is the name, and the scan goes on after it.
\<close>

function format_variables :: "string \<Rightarrow> string" where
  "format_variables [] = []"
| "format_variables (c # cs) =
     (if c = CHR ''$'' \<and> takeWhile word_char cs \<noteq> []
      then ''{'' @ takeWhile word_char cs @ ''}'' @ format_variables (dropWhile word_char cs)
      else c # format_variables cs)"
  by pat_completeness auto
termination
  by (relation "measure length") (auto simp: length_dropWhile_le less_Suc_eq_le)

text \<open>
  \<open>str.format(**variables)\<close> with no positional argument. The variable map holds the
  values as the text \<open>format\<close> inserts for them.

  The name of a replacement field is looked up as \<open>str.format\<close> does. CPython's
  \<open>get_integer\<close> reads the name from the left: at a character that is not a decimal digit
  it answers that the name is no number; at a digit that would take the accumulated
  number beyond \<open>PY_SSIZE_T_MAX\<close> (here \<open>2^63 - 1\<close>) it raises \<open>ValueError\<close>, whatever
  follows; at the end it answers the number. An empty name or a number is a position,
  and there are no positional arguments, so it raises \<open>IndexError\<close>; any other name is a
  key of the map, \<open>KeyError\<close> when absent.
\<close>

definition py_ssize_t_max :: nat where
  "py_ssize_t_max = 2 ^ 63 - 1"

definition digit_value :: "char \<Rightarrow> nat" where
  "digit_value c = (case map_of (zip digits [0, 1, 2, 3, 4, 5, 6, 7, 8, 9]) c of Some n \<Rightarrow> n | None \<Rightarrow> 0)"

fun get_integer :: "nat \<Rightarrow> string \<Rightarrow> error + nat option" where
  "get_integer accumulator [] = Inr (Some accumulator)"
| "get_integer accumulator (c # cs) =
     (if c \<notin> set digits then Inr None
      else if accumulator > (py_ssize_t_max - digit_value c) div 10
      then Inl (ValueError ''Too many decimal digits in format string'')
      else get_integer (accumulator * 10 + digit_value c) cs)"

definition lookup_field :: "string \<Rightarrow> (string \<rightharpoonup> string) \<Rightarrow> error + string" where
  "lookup_field name kw =
     (if name = [] then Inl IndexError
      else (case get_integer 0 name of
              Inl err \<Rightarrow> Inl err
            | Inr (Some position) \<Rightarrow> Inl IndexError
            | Inr None \<Rightarrow> (case kw name of None \<Rightarrow> Inl (KeyError name) | Some v \<Rightarrow> Inr v)))"

text \<open>
  The format string is read from the left, as CPython's \<open>MarkupIterator\<close> reads it:
  a doubled brace is one literal brace, a closing brace alone is an error, an opening
  brace starts a replacement field that runs to the next closing brace. A field is
  parsed to its end before its name is looked up, and the first error ends the call.
\<close>

definition field_name_char :: "char \<Rightarrow> bool" where
  "field_name_char c = (c \<notin> set ''{}[].!:'')"

function py_format :: "string \<Rightarrow> (string \<rightharpoonup> string) \<Rightarrow> error + string" where
  "py_format [] kw = Inr []"
| "py_format (c # cs) kw =
     (if c = CHR ''}'' then
        (case cs of
           [] \<Rightarrow> Inl (ValueError ''Single '}' encountered in format string'')
         | d # rest \<Rightarrow>
             if d = CHR ''}'' then map_sum id ((#) CHR ''}'') (py_format rest kw)
             else Inl (ValueError ''Single '}' encountered in format string''))
      else if c = CHR ''{'' then
        (case cs of
           [] \<Rightarrow> Inl (ValueError ''Single '{' encountered in format string'')
         | d # rest \<Rightarrow>
             if d = CHR ''{'' then map_sum id ((#) CHR ''{'') (py_format rest kw)
             else
               (case dropWhile field_name_char cs of
                  [] \<Rightarrow> Inl (ValueError ''expected '}' before end of string'')
                | e # after \<Rightarrow>
                    if e = CHR ''}'' then
                      (case lookup_field (takeWhile field_name_char cs) kw of
                         Inl err \<Rightarrow> Inl err
                       | Inr v \<Rightarrow> map_sum id ((@) v) (py_format after kw))
                    else if e = CHR ''{'' then
                      Inl (ValueError ''unexpected '{' in field name'')
                    else Inl Unmodelled))
      else map_sum id ((#) c) (py_format cs kw))"
  by pat_completeness auto
termination
proof (relation "measure (\<lambda>(s, kw). length s)")
  fix c :: char and cs :: string and kw :: "string \<rightharpoonup> string" and d rest e after
  assume "dropWhile field_name_char cs = e # after"
  then have "length after < length (dropWhile field_name_char cs)"
    by simp
  also have "\<dots> \<le> length cs"
    by (rule length_dropWhile_le)
  finally show "((after, kw), c # cs, kw) \<in> measure (\<lambda>(s, kw). length s)"
    by simp
qed auto

text \<open>The two lines that substitute the variables, in \<open>fetch_data\<close> and in \<open>execute_sql\<close>.\<close>

definition substitute :: "string \<Rightarrow> (string \<rightharpoonup> string) \<Rightarrow> error + string" where
  "substitute query variables = py_format (format_variables query) variables"

section \<open>Data frames\<close>

text \<open>
  A pandas dtype as the code sees it: through the answers of the four
  \<open>pd.api.types\<close> predicates it asks.
\<close>

record dtype =
  is_integer_dtype :: bool
  is_float_dtype :: bool
  is_datetime64_any_dtype :: bool
  is_bool_dtype :: bool

record 'a column =
  label :: string
  dtype_of :: dtype
  cells :: "'a list"

text \<open>A \<open>DataFrame\<close>: the length of its index and its columns, in order.\<close>

record 'a frame =
  index_len :: nat
  columns :: "'a column list"

text \<open>\<open>df.empty\<close>: one of the two axes has length zero.\<close>

definition frame_empty :: "'a frame \<Rightarrow> bool" where
  "frame_empty df = (index_len df = 0 \<or> columns df = [])"

definition pandas_type_to_snowflake :: "dtype \<Rightarrow> string" where
  "pandas_type_to_snowflake d =
     (if is_integer_dtype d then ''NUMBER''
      else if is_float_dtype d then ''FLOAT''
      else if is_datetime64_any_dtype d then ''TIMESTAMP_NTZ''
      else if is_bool_dtype d then ''BOOLEAN''
      else ''STRING'')"

definition convert_snowflake_response :: "'a frame \<Rightarrow> 'a frame" where
  "convert_snowflake_response response =
     (let kept = response\<lparr>columns := filter (\<lambda>c. \<not> startswith (label c) ''_'') (columns response)\<rparr>
      in kept\<lparr>columns := map (\<lambda>c. c\<lparr>label := lower (label c)\<rparr>) (columns kept)\<rparr>)"

section \<open>The session, the files and the caller's objects\<close>

text \<open>
  The warehouse driver, the bulk writer, the hash and the parquet writer are not code of
  this repository: they are parameters. \<open>execute\<close> runs one statement on a warehouse
  state and gives the new state with what the cursor then holds, or raises;
  \<open>write_pandas\<close> gives the new state, the success flag and the row count;
  \<open>to_parquet\<close> gives the error of a write that fails.
\<close>

record 'a reply =
  fetchone :: "int list option"
  fetch_pandas_all :: "error + 'a frame"

record ('w, 'a) driver =
  execute :: "string \<Rightarrow> 'w \<Rightarrow> error + 'w \<times> 'a reply"
  write_pandas :: "string \<Rightarrow> 'a frame \<Rightarrow> 'w \<Rightarrow> error + 'w \<times> bool \<times> nat"
  md5_hexdigest :: "string \<Rightarrow> string"
  to_parquet :: "'a frame \<Rightarrow> error option"

text \<open>Every call on the connection or on one of its cursors is logged.\<close>

datatype call =
    Cursor
  | Execute string
  | FetchOne
  | FetchPandasAll
  | CursorClose
  | WritePandas string

text \<open>
  The state the code reads and writes: the warehouse behind the session, the log of
  session calls, the text files, the parquet files under \<open>sql/caches\<close> by file name,
  the \<open>DataFrame\<close> objects the caller holds (by reference), and standard output.
  The directory \<open>sql/caches\<close> itself is not part of the state: \<open>fetch_data\<close> creates it
  when it is missing, which changes none of the files. A cache file in the state is one
  that \<open>pd.read_parquet\<close> reads.
\<close>

record ('w, 'a) world =
  warehouse :: 'w
  session_calls :: "call list"
  files :: "string \<rightharpoonup> string"
  cache :: "string \<rightharpoonup> 'a frame"
  frames :: "nat \<Rightarrow> 'a frame"
  printed :: "string list"

type_synonym ('w, 'a, 'x) action = "('w, 'a) world \<Rightarrow> (error + 'x) \<times> ('w, 'a) world"

definition return :: "'x \<Rightarrow> ('w, 'a, 'x) action" where
  "return x = (\<lambda>s. (Inr x, s))"

definition raise :: "error \<Rightarrow> ('w, 'a, 'x) action" where
  "raise e = (\<lambda>s. (Inl e, s))"

text \<open>Sequencing: an exception of the first part skips the second.\<close>

definition bnd :: "('w, 'a, 'x) action \<Rightarrow> ('x \<Rightarrow> ('w, 'a, 'y) action) \<Rightarrow> ('w, 'a, 'y) action" where
  "bnd m f = (\<lambda>s. case m s of (Inl e, s') \<Rightarrow> (Inl e, s') | (Inr x, s') \<Rightarrow> f x s')"

text \<open>\<open>try: body finally: cleanup\<close>.\<close>

definition try_finally :: "('w, 'a, 'x) action \<Rightarrow> ('w, 'a, unit) action \<Rightarrow> ('w, 'a, 'x) action" where
  "try_finally body cleanup =
     (\<lambda>s. case body s of (r, s') \<Rightarrow>
        (case cleanup s' of (Inl e, s'') \<Rightarrow> (Inl e, s'') | (Inr _, s'') \<Rightarrow> (r, s'')))"

definition lift :: "error + 'x \<Rightarrow> ('w, 'a, 'x) action" where
  "lift r = (case r of Inl e \<Rightarrow> raise e | Inr x \<Rightarrow> return x)"

definition print :: "string \<Rightarrow> ('w, 'a, unit) action" where
  "print msg = (\<lambda>s. (Inr (), s\<lparr>printed := printed s @ [msg]\<rparr>))"

definition logged :: "call \<Rightarrow> ('w, 'a, unit) action" where
  "logged c = (\<lambda>s. (Inr (), s\<lparr>session_calls := session_calls s @ [c]\<rparr>))"

definition conn_cursor :: "('w, 'a, unit) action" where
  "conn_cursor = logged Cursor"

definition cursor_execute :: "('w, 'a) driver \<Rightarrow> string \<Rightarrow> ('w, 'a, 'a reply) action" where
  "cursor_execute drv sql =
     bnd (logged (Execute sql)) (\<lambda>_ s.
       case execute drv sql (warehouse s) of
         Inl e \<Rightarrow> (Inl e, s)
       | Inr (w, r) \<Rightarrow> (Inr r, s\<lparr>warehouse := w\<rparr>))"

definition cursor_fetchone :: "'a reply \<Rightarrow> ('w, 'a, int list option) action" where
  "cursor_fetchone r = bnd (logged FetchOne) (\<lambda>_. return (fetchone r))"

definition cursor_fetch_pandas_all :: "'a reply \<Rightarrow> ('w, 'a, 'a frame) action" where
  "cursor_fetch_pandas_all r = bnd (logged FetchPandasAll) (\<lambda>_. lift (fetch_pandas_all r))"

definition cursor_close :: "('w, 'a, unit) action" where
  "cursor_close = logged CursorClose"

text \<open>\<open>row[0]\<close> on what \<open>fetchone()\<close> gave: \<open>None\<close> is not subscriptable.\<close>

definition first_cell :: "int list option \<Rightarrow> error + int" where
  "first_cell row =
     (case row of None \<Rightarrow> Inl TypeError | Some [] \<Rightarrow> Inl IndexError | Some (n # _) \<Rightarrow> Inr n)"

definition conn_write_pandas :: "('w, 'a) driver \<Rightarrow> string \<Rightarrow> 'a frame \<Rightarrow> ('w, 'a, bool \<times> nat) action" where
  "conn_write_pandas drv table_name df =
     bnd (logged (WritePandas table_name)) (\<lambda>_ s.
       case write_pandas drv table_name df (warehouse s) of
         Inl e \<Rightarrow> (Inl e, s)
       | Inr (w, success, nrows) \<Rightarrow> (Inr (success, nrows), s\<lparr>warehouse := w\<rparr>))"

definition read_frame :: "nat \<Rightarrow> ('w, 'a, 'a frame) action" where
  "read_frame ref = (\<lambda>s. (Inr (frames s ref), s))"

text \<open>\<open>df.columns = [f(col) for col in df.columns]\<close> on the object behind a reference.\<close>

definition relabel :: "(string \<Rightarrow> string) \<Rightarrow> 'a frame \<Rightarrow> 'a frame" where
  "relabel f df = df\<lparr>columns := map (\<lambda>c. c\<lparr>label := f (label c)\<rparr>) (columns df)\<rparr>"

definition assign_columns :: "nat \<Rightarrow> (string \<Rightarrow> string) \<Rightarrow> ('w, 'a, unit) action" where
  "assign_columns ref f = (\<lambda>s. (Inr (), s\<lparr>frames := (frames s)(ref := relabel f (frames s ref))\<rparr>))"

definition write_cache :: "('w, 'a) driver \<Rightarrow> string \<Rightarrow> 'a frame \<Rightarrow> ('w, 'a, unit) action" where
  "write_cache drv cache_file df =
     (\<lambda>s. case to_parquet drv df of
        Some e \<Rightarrow> (Inl e, s)
      | None \<Rightarrow> (Inr (), s\<lparr>cache := (cache s)(cache_file \<mapsto> df)\<rparr>))"

section \<open>The operations of \<open>SnowflakeUtils\<close>\<close>

definition quoted :: "string \<Rightarrow> string" where
  "quoted s = [CHR 0x27] @ s @ [CHR 0x27]"

text \<open>The catalog query of \<open>drop_table\<close> and \<open>export_data\<close>, with the source's line breaks.\<close>

definition exists_query :: "string \<Rightarrow> string \<Rightarrow> string" where
  "exists_query schema table_name =
     ''\<newline>            SELECT COUNT(*)\<newline>            FROM information_schema.tables\<newline>            WHERE table_schema = ''
     @ quoted schema @ '' AND table_name = '' @ quoted (upper table_name) @ ''\<newline>            ''"

definition drop_table :: "('w, 'a) driver \<Rightarrow> string \<Rightarrow> string \<Rightarrow> string \<Rightarrow> ('w, 'a, unit) action" where
  "drop_table drv database schema table_name =
     bnd conn_cursor (\<lambda>_.
     bnd (cursor_execute drv (''USE DATABASE '' @ database)) (\<lambda>_.
     bnd conn_cursor (\<lambda>_.
     bnd (cursor_execute drv (''USE SCHEMA '' @ schema)) (\<lambda>_.
     bnd conn_cursor (\<lambda>_.
     bnd (cursor_execute drv (exists_query schema table_name)) (\<lambda>cur.
     bnd (cursor_fetchone cur) (\<lambda>row.
     bnd (lift (first_cell row)) (\<lambda>table_exists.
       if table_exists \<noteq> 0 then
         bnd (cursor_execute drv (''DROP TABLE '' @ schema @ ''.'' @ table_name)) (\<lambda>_.
         print (''Table '' @ quoted table_name @ '' dropped.''))
       else print (''Table '' @ quoted table_name @ '' does not exist.'')))))))))"

text \<open>
  \<open>f"{col} {self.pandas_type_to_snowflake(df[col].dtype)}"\<close>: \<open>df[col]\<close> is a column when
  one column has that label and a \<open>DataFrame\<close>, which has no \<open>dtype\<close>, when several have.
\<close>

definition column_def :: "'a frame \<Rightarrow> string \<Rightarrow> error + string" where
  "column_def df col =
     (case filter (\<lambda>c. label c = col) (columns df) of
        [] \<Rightarrow> Inl (KeyError col)
      | [c] \<Rightarrow> Inr (col @ '' '' @ pandas_type_to_snowflake (dtype_of c))
      | _ \<Rightarrow> Inl AttributeError)"

text \<open>A list comprehension stops at the first element that raises.\<close>

fun collect :: "(error + 'x) list \<Rightarrow> error + 'x list" where
  "collect [] = Inr []"
| "collect (r # rs) = (case r of Inl e \<Rightarrow> Inl e | Inr x \<Rightarrow> map_sum id ((#) x) (collect rs))"

definition create_table_sql :: "string \<Rightarrow> string \<Rightarrow> string \<Rightarrow> string" where
  "create_table_sql schema table_name column_defs =
     ''\<newline>            CREATE TABLE '' @ schema @ ''.'' @ table_name @ '' (\<newline>                ''
     @ column_defs @ ''\<newline>            )\<newline>            ''"

definition export_data ::
  "('w, 'a) driver \<Rightarrow> nat \<Rightarrow> string \<Rightarrow> string \<Rightarrow> string \<Rightarrow> bool \<Rightarrow> ('w, 'a, unit) action" where
  "export_data drv df database schema table_name append_flag =
     bnd (if \<not> append_flag then drop_table drv database schema table_name else return ()) (\<lambda>_.
     bnd (read_frame df) (\<lambda>rows.
       if frame_empty rows then print ''DataFrame is empty. No data to export.''
       else
         bnd (assign_columns df upper) (\<lambda>_.
         bnd conn_cursor (\<lambda>_.
         bnd (cursor_execute drv (''USE DATABASE '' @ database)) (\<lambda>_.
         bnd conn_cursor (\<lambda>_.
         bnd (cursor_execute drv (''USE SCHEMA '' @ schema)) (\<lambda>_.
         bnd conn_cursor (\<lambda>_.
         bnd (cursor_execute drv (exists_query schema table_name)) (\<lambda>cur.
         bnd (cursor_fetchone cur) (\<lambda>row.
         bnd (lift (first_cell row)) (\<lambda>table_exists.
         bnd (if table_exists = 0 then
                bnd (read_frame df) (\<lambda>rows.
                bnd (lift (collect (map (column_def rows) (map label (columns rows))))) (\<lambda>defs.
                bnd (print (''Generated SQL for table creation:\<newline> ''
                            @ create_table_sql schema table_name (join '', '' defs))) (\<lambda>_.
                bnd (cursor_execute drv (create_table_sql schema table_name (join '', '' defs))) (\<lambda>_.
                print (''Table '' @ quoted table_name @ '' created successfully.'')))))
              else print (''Table '' @ quoted table_name @ '' already exists.'')) (\<lambda>_.
         bnd (read_frame df) (\<lambda>rows.
         bnd (print (''Writing '' @ show_nat (index_len rows) @ '' rows to Snowflake...'')) (\<lambda>_.
         bnd (conn_write_pandas drv table_name rows) (\<lambda>(success, nrows).
           if success then print (''Successfully written '' @ show_nat nrows @ '' rows to Snowflake.'')
           else print ''Failed to write DataFrame to Snowflake.'')))))))))))))))"

text \<open>
  \<open>Path(p).with_suffix(s).name\<close> for a path with a file name: the last component, its
  suffix (from the last dot, when that dot is neither the first nor the last character
  of the name) replaced.
\<close>

definition path_name :: "string \<Rightarrow> string" where
  "path_name p = rev (takeWhile (\<lambda>c. c \<noteq> CHR ''/'') (rev p))"

definition suffix_of :: "string \<Rightarrow> string" where
  "suffix_of name =
     (let k = length (takeWhile (\<lambda>c. c \<noteq> CHR ''.'') (rev name))
      in if k < length name \<and> 0 < k \<and> Suc k < length name then drop (length name - Suc k) name else [])"

definition with_suffix_name :: "string \<Rightarrow> string \<Rightarrow> string" where
  "with_suffix_name p s = (let name = path_name p in take (length name - length (suffix_of name)) name @ s)"

definition validation_message :: string where
  "validation_message =
     ''The input must be a filename ending with '' @ quoted ''.sql''
     @ '' or a SQL query starting with '' @ quoted ''select'' @ '' or '' @ quoted ''with''"

text \<open>
  Lines 160 to 188 of \<open>fetch_data\<close>: the query text and the name of the cache file, from
  a file under \<open>sql/\<close> or from the inline text.
\<close>

definition resolve_query :: "('w, 'a) driver \<Rightarrow> string \<Rightarrow> ('w, 'a, string \<times> string) action" where
  "resolve_query drv query_input =
     (if endswith (lower query_input) ''.sql'' then
        (let query_file = (if startswith query_input ''sql/'' then query_input else ''sql/'' @ query_input)
         in (\<lambda>s. case files s query_file of
                    None \<Rightarrow> (Inl (FileNotFoundError (''File '' @ query_file @ '' not found'')), s)
                  | Some text \<Rightarrow> (Inr (text, with_suffix_name query_file ''.parquet''), s)))
      else
        (let query = strip query_input
         in if \<not> (startswith (lower query) ''select'' \<or> startswith (lower query) ''with'')
            then raise (ValueError validation_message)
            else return (query, md5_hexdigest drv query @ ''.parquet'')))"

definition fetch_data ::
  "('w, 'a) driver \<Rightarrow> string \<Rightarrow> (string \<rightharpoonup> string) \<Rightarrow> bool \<Rightarrow> ('w, 'a, 'a frame) action" where
  "fetch_data drv query_input variables use_cache =
     bnd (print ''Fetching data from Snowflake...'') (\<lambda>_.
     bnd (resolve_query drv query_input) (\<lambda>(query, cache_file) s.
       case (if use_cache then cache s cache_file else None) of
         Some cached \<Rightarrow> (Inr cached, s)
       | None \<Rightarrow>
           bnd (lift (substitute query variables)) (\<lambda>query.
           bnd conn_cursor (\<lambda>_.
           try_finally
             (bnd (print (''Executing query:\<newline>'' @ query)) (\<lambda>_.
              bnd (cursor_execute drv query) (\<lambda>cur.
              bnd (cursor_fetch_pandas_all cur) (\<lambda>response.
              bnd (write_cache drv cache_file (convert_snowflake_response response)) (\<lambda>_.
              return (convert_snowflake_response response))))))
             cursor_close)) s))"




section \<open>The specification's words\<close>

text \<open>
  The substitution as the specification describes it, in one pass: the identifiers of the
  \<open>$identifier\<close> tokens of a text, from the left, and the text with each token replaced by
  the value the map gives for its identifier.
\<close>

function variable_tokens :: "string \<Rightarrow> string list" where
  "variable_tokens [] = []"
| "variable_tokens (c # cs) =
     (if c = CHR ''$'' \<and> takeWhile word_char cs \<noteq> []
      then takeWhile word_char cs # variable_tokens (dropWhile word_char cs)
      else variable_tokens cs)"
  by pat_completeness auto
termination
  by (relation "measure length") (auto simp: length_dropWhile_le less_Suc_eq_le)

function replace_tokens :: "(string \<rightharpoonup> string) \<Rightarrow> string \<Rightarrow> string" where
  "replace_tokens vars [] = []"
| "replace_tokens vars (c # cs) =
     (if c = CHR ''$'' \<and> takeWhile word_char cs \<noteq> []
      then (case vars (takeWhile word_char cs) of None \<Rightarrow> [] | Some v \<Rightarrow> v)
           @ replace_tokens vars (dropWhile word_char cs)
      else c # replace_tokens vars cs)"
  by pat_completeness auto
termination
  by (relation "measure (\<lambda>(vars, s). length s)") (auto simp: length_dropWhile_le less_Suc_eq_le)

text \<open>
  The number the leading decimal digits of an identifier write (zero when it has none).
\<close>

definition leading_number :: "string \<Rightarrow> nat" where
  "leading_number name =
     foldl (\<lambda>n c. n * 10 + digit_value c) 0 (takeWhile (\<lambda>c. c \<in> set digits) name)"


text \<open>
  What \<open>drop_table\<close> expects of the warehouse behind the session, for one database, schema
  and table: the catalog query changes nothing; once the context is selected, selecting
  it again changes nothing; and a \<open>DROP TABLE\<close> that succeeds keeps the context selected
  and leaves a catalog in which the query counts no such table.
\<close>

definition selected :: "('w, 'a) driver \<Rightarrow> string \<Rightarrow> string \<Rightarrow> 'w \<Rightarrow> bool" where
  "selected drv database schema w =
     ((\<exists>r. execute drv (''USE DATABASE '' @ database) w = Inr (w, r)) \<and>
      (\<exists>r. execute drv (''USE SCHEMA '' @ schema) w = Inr (w, r)))"

definition warehouse_contract :: "('w, 'a) driver \<Rightarrow> string \<Rightarrow> string \<Rightarrow> string \<Rightarrow> bool" where
  "warehouse_contract drv database schema table_name =
     ((\<forall>w w' r. execute drv (exists_query schema table_name) w = Inr (w', r) \<longrightarrow> w' = w) \<and>
      (\<forall>w w1 r1 w2 r2.
         execute drv (''USE DATABASE '' @ database) w = Inr (w1, r1) \<longrightarrow>
         execute drv (''USE SCHEMA '' @ schema) w1 = Inr (w2, r2) \<longrightarrow>
         selected drv database schema w2) \<and>
      (\<forall>w w' r.
         selected drv database schema w \<longrightarrow>
         execute drv (''DROP TABLE '' @ schema @ ''.'' @ table_name) w = Inr (w', r) \<longrightarrow>
         selected drv database schema w' \<and>
         (\<exists>r' rest. execute drv (exists_query schema table_name) w' = Inr (w', r')
                    \<and> fetchone r' = Some (0 # rest))))"

section \<open>A session for the examples\<close>

text \<open>
  A small stand-in for the collaborators, to run the operations on concrete inputs. Its
  warehouse is one bit, whether the table is there: \<open>DROP TABLE\<close> removes it or fails,
  \<open>CREATE TABLE\<close> and the bulk writer create it, a statement that starts with \<open>fail\<close>
  raises, and every other statement is answered with the count of the table and one
  fixed result set. Its hash is the text reversed.
\<close>

definition demo_frame :: "int frame" where
  "demo_frame =
     \<lparr>index_len = 2,
      columns =
        [\<lparr>label = ''_META'',
          dtype_of = \<lparr>is_integer_dtype = False, is_float_dtype = False,
                      is_datetime64_any_dtype = False, is_bool_dtype = False\<rparr>,
          cells = [0, 0]\<rparr>,
         \<lparr>label = ''Id'',
          dtype_of = \<lparr>is_integer_dtype = True, is_float_dtype = False,
                      is_datetime64_any_dtype = False, is_bool_dtype = False\<rparr>,
          cells = [1, 2]\<rparr>,
         \<lparr>label = ''PRICE'',
          dtype_of = \<lparr>is_integer_dtype = False, is_float_dtype = True,
                      is_datetime64_any_dtype = False, is_bool_dtype = False\<rparr>,
          cells = [10, 20]\<rparr>]\<rparr>"

definition demo_reply :: "int \<Rightarrow> int reply" where
  "demo_reply n = \<lparr>fetchone = Some [n], fetch_pandas_all = Inr demo_frame\<rparr>"

definition demo_execute :: "string \<Rightarrow> bool \<Rightarrow> error + bool \<times> int reply" where
  "demo_execute sql present =
     (if startswith sql ''DROP TABLE '' then
        (if present then Inr (False, demo_reply 0) else Inl (DriverError ''Table does not exist''))
      else if startswith sql ''USE '' then Inr (present, demo_reply 0)
      else if startswith (strip sql) ''CREATE TABLE '' then Inr (True, demo_reply 0)
      else if startswith sql ''fail'' then Inl (DriverError ''SQL compilation error'')
      else Inr (present, demo_reply (if present then 1 else 0)))"

definition demo_driver :: "(bool, int) driver" where
  "demo_driver =
     \<lparr>execute = demo_execute,
      write_pandas = (\<lambda>table_name df present. Inr (True, True, index_len df)),
      md5_hexdigest = rev,
      to_parquet = (\<lambda>df. None)\<rparr>"

definition demo_world :: "(bool, int) world" where
  "demo_world =
     \<lparr>warehouse = True,
      session_calls = [],
      files = [''sql/report.sql'' \<mapsto> ''select * from t where id = $id'',
               ''load.sql'' \<mapsto> ''delete from t where id = $id; ;insert into t values ($id) ;''],
      cache = Map.empty,
      frames = (\<lambda>ref. if ref = 1 then demo_frame else \<lparr>index_len = 0, columns = []\<rparr>),
      printed = []\<rparr>"

section \<open>Evaluation and bookkeeping lemmas\<close>

lemmas char_class_defs = lower_def upper_def lower_char_def upper_char_def lower_letters_def
  upper_letters_def digits_def is_space_def strip_def startswith_def endswith_def word_char_def
  field_name_char_def

lemmas action_defs = bnd_def return_def raise_def lift_def print_def logged_def conn_cursor_def
  cursor_execute_def cursor_fetchone_def cursor_fetch_pandas_all_def cursor_close_def
  try_finally_def write_cache_def read_frame_def assign_columns_def conn_write_pandas_def

section \<open>Column types\<close>

text \<open>
  Claim C6. The column-type inference is total: it answers \<open>NUMBER\<close> for an integer dtype,
  \<open>FLOAT\<close> for a float dtype, \<open>TIMESTAMP_NTZ\<close> for a datetime dtype, \<open>BOOLEAN\<close> for a boolean
  dtype and \<open>STRING\<close> for every other dtype, and it has no failing branch. The four pandas
  predicates are asked in that order, so a dtype is classified by the first one it
  satisfies; each dtype of pandas satisfies at most one.
\<close>

theorem pandas_type_to_snowflake_mapping:
  "(is_integer_dtype d \<longrightarrow> pandas_type_to_snowflake d = ''NUMBER'') \<and>
   (\<not> is_integer_dtype d \<and> is_float_dtype d \<longrightarrow> pandas_type_to_snowflake d = ''FLOAT'') \<and>
   (\<not> is_integer_dtype d \<and> \<not> is_float_dtype d \<and> is_datetime64_any_dtype d
      \<longrightarrow> pandas_type_to_snowflake d = ''TIMESTAMP_NTZ'') \<and>
   (\<not> is_integer_dtype d \<and> \<not> is_float_dtype d \<and> \<not> is_datetime64_any_dtype d \<and> is_bool_dtype d
      \<longrightarrow> pandas_type_to_snowflake d = ''BOOLEAN'') \<and>
   (\<not> is_integer_dtype d \<and> \<not> is_float_dtype d \<and> \<not> is_datetime64_any_dtype d \<and> \<not> is_bool_dtype d
      \<longrightarrow> pandas_type_to_snowflake d = ''STRING'') \<and>
   pandas_type_to_snowflake d \<in> {''NUMBER'', ''FLOAT'', ''TIMESTAMP_NTZ'', ''BOOLEAN'', ''STRING''}"
  by (simp add: pandas_type_to_snowflake_def)

theorem pandas_type_to_snowflake_mapping_witness:
  "pandas_type_to_snowflake \<lparr>is_integer_dtype = False, is_float_dtype = False,
      is_datetime64_any_dtype = True, is_bool_dtype = False\<rparr> = ''TIMESTAMP_NTZ'' \<and>
   pandas_type_to_snowflake \<lparr>is_integer_dtype = False, is_float_dtype = False,
      is_datetime64_any_dtype = False, is_bool_dtype = False\<rparr> = ''STRING''"
  using pandas_type_to_snowflake_mapping [of "\<lparr>is_integer_dtype = False, is_float_dtype = False,
      is_datetime64_any_dtype = True, is_bool_dtype = False\<rparr>"]
    pandas_type_to_snowflake_mapping [of "\<lparr>is_integer_dtype = False, is_float_dtype = False,
      is_datetime64_any_dtype = False, is_bool_dtype = False\<rparr>"]
  by simp

section \<open>Cached execution\<close>

lemma resolve_query_state: "snd (resolve_query drv qi s) = s"
  by (simp add: resolve_query_def Let_def raise_def return_def split: option.splits)

lemma resolve_query_printed:
  "fst (resolve_query drv qi (s\<lparr>printed := p\<rparr>)) = fst (resolve_query drv qi s)"
  by (simp add: resolve_query_def Let_def raise_def return_def split: option.splits)

lemma resolve_query_after_print:
  assumes "fst (resolve_query drv qi s) = r"
  shows "resolve_query drv qi (s\<lparr>printed := p\<rparr>) = (r, s\<lparr>printed := p\<rparr>)"
  using assms resolve_query_state [where drv = drv and qi = qi and s = "s\<lparr>printed := p\<rparr>"]
    resolve_query_printed [where drv = drv and qi = qi and s = s and p = p]
  by (metis prod.collapse)

text \<open>
  Claim C2. When the query input resolves to a cache file that exists, \<open>fetch_data\<close> with
  \<open>cache = True\<close> returns the content of that file. The state it leaves differs from the
  one it found by the line it prints only: no statement is executed, no variable is
  substituted (the variable map is not read), and the log of session calls is unchanged.
\<close>

theorem fetch_data_cache_hit:
  assumes "fst (resolve_query drv query_input s) = Inr (query, cache_file)"
    and "cache s cache_file = Some cached"
  shows "fetch_data drv query_input variables True s =
           (Inr cached, s\<lparr>printed := printed s @ [''Fetching data from Snowflake...'']\<rparr>)"
  using assms(2) resolve_query_after_print [OF assms(1)]
  by (simp add: fetch_data_def bnd_def print_def)

lemma demo_inline_resolve:
  "fst (resolve_query demo_driver ''  Select 1 '' (demo_world\<lparr>cache := [''1 tceleS.parquet'' \<mapsto> demo_frame]\<rparr>))
     = Inr (''Select 1'', ''1 tceleS.parquet'')"
  by (simp add: resolve_query_def char_class_defs return_def demo_driver_def)

theorem fetch_data_cache_hit_witness:
  "fetch_data demo_driver ''  Select 1 '' [''id'' \<mapsto> ''42''] True
     (demo_world\<lparr>cache := [''1 tceleS.parquet'' \<mapsto> demo_frame]\<rparr>) =
   (Inr demo_frame,
    demo_world\<lparr>cache := [''1 tceleS.parquet'' \<mapsto> demo_frame],
               printed := [''Fetching data from Snowflake...'']\<rparr>) \<and>
   session_calls (snd (fetch_data demo_driver ''  Select 1 '' [''id'' \<mapsto> ''42''] True
     (demo_world\<lparr>cache := [''1 tceleS.parquet'' \<mapsto> demo_frame]\<rparr>))) = []"
  using fetch_data_cache_hit [OF demo_inline_resolve, of demo_frame "[''id'' \<mapsto> ''42'']"]
  by (simp add: demo_world_def)

lemma fetch_data_hit:
  assumes "fst (resolve_query drv query_input s) = Inr (query, cache_file)"
    and "cache s cache_file = Some cached"
  shows "fetch_data drv query_input variables True s =
           (Inr cached, s\<lparr>printed := printed s @ [''Fetching data from Snowflake...'']\<rparr>)"
  using assms(2) resolve_query_after_print [OF assms(1)]
  by (simp add: fetch_data_def bnd_def print_def)

lemma fetch_data_miss:
  assumes "fst (resolve_query drv query_input s) = Inr (query, cache_file)"
    and "\<not> use_cache \<or> cache s cache_file = None"
    and "substitute query variables = Inr sql"
    and "execute drv sql (warehouse s) = Inr (w, cur)"
    and "fetch_pandas_all cur = Inr response"
    and "to_parquet drv (convert_snowflake_response response) = None"
  shows "fetch_data drv query_input variables use_cache s =
           (Inr (convert_snowflake_response response),
            s\<lparr>warehouse := w,
              session_calls := session_calls s @ [Cursor, Execute sql, FetchPandasAll, CursorClose],
              cache := (cache s)(cache_file \<mapsto> convert_snowflake_response response),
              printed := printed s @ [''Fetching data from Snowflake...'', ''Executing query:\<newline>'' @ sql]\<rparr>)"
  using assms(2-) resolve_query_after_print [OF assms(1)]
  by (auto simp add: fetch_data_def action_defs)

lemma convert_labels:
  "map label (columns (convert_snowflake_response r)) =
     map lower (filter (\<lambda>n. \<not> startswith n ''_'') (map label (columns r)))"
  by (simp add: convert_snowflake_response_def Let_def filter_map comp_def)

lemma convert_data:
  "map (\<lambda>c. (dtype_of c, cells c)) (columns (convert_snowflake_response r)) =
     map (\<lambda>c. (dtype_of c, cells c)) (filter (\<lambda>c. \<not> startswith (label c) ''_'') (columns r))"
  by (simp add: convert_snowflake_response_def Let_def comp_def)

lemma resolve_inline:
  assumes "\<not> endswith (lower qi) ''.sql''"
  shows "resolve_query drv qi s =
     (if startswith (lower (strip qi)) ''select'' \<or> startswith (lower (strip qi)) ''with''
      then (Inr (strip qi, md5_hexdigest drv (strip qi) @ ''.parquet''), s)
      else (Inl (ValueError validation_message), s))"
  using assms by (simp add: resolve_query_def Let_def raise_def return_def)

lemma fetch_data_inline_result:
  assumes inline: "\<not> endswith (lower qi) ''.sql''"
    and run: "fetch_data drv qi v c s = (Inr df, s1)"
  shows "cache s1 (md5_hexdigest drv (strip qi) @ ''.parquet'') = Some df \<and>
         fst (resolve_query drv qi s1) = Inr (strip qi, md5_hexdigest drv (strip qi) @ ''.parquet'')"
  using run
  by (auto simp add: fetch_data_def action_defs resolve_inline [OF inline]
      split: if_splits sum.splits option.splits prod.splits)

text \<open>The example query of the specification, run on the example session with the cache off.\<close>

lemma demo_substitute:
  "substitute ''select * from t where id = $id'' [''id'' \<mapsto> ''42''] = Inr ''select * from t where id = 42''"
  by (simp add: substitute_def char_class_defs lookup_field_def)

lemma demo_not_file: "\<not> endswith (lower ''select * from t where id = $id'') ''.sql''"
  by (simp add: char_class_defs)

lemma demo_resolve:
  "fst (resolve_query demo_driver ''select * from t where id = $id'' demo_world) =
     Inr (''select * from t where id = $id'', ''di$ = di erehw t morf * tceles.parquet'')"
  by (simp add: resolve_inline [OF demo_not_file] char_class_defs demo_driver_def)

lemma demo_convert:
  "convert_snowflake_response demo_frame =
     \<lparr>index_len = 2,
      columns =
        [\<lparr>label = ''id'',
          dtype_of = \<lparr>is_integer_dtype = True, is_float_dtype = False,
                      is_datetime64_any_dtype = False, is_bool_dtype = False\<rparr>,
          cells = [1, 2]\<rparr>,
         \<lparr>label = ''price'',
          dtype_of = \<lparr>is_integer_dtype = False, is_float_dtype = True,
                      is_datetime64_any_dtype = False, is_bool_dtype = False\<rparr>,
          cells = [10, 20]\<rparr>]\<rparr>"
  by (simp add: convert_snowflake_response_def demo_frame_def char_class_defs)

lemma demo_fetch:
  "fetch_data demo_driver ''select * from t where id = $id'' [''id'' \<mapsto> ''42''] False demo_world =
     (Inr (convert_snowflake_response demo_frame),
      demo_world\<lparr>warehouse := True,
        session_calls := session_calls demo_world
           @ [Cursor, Execute ''select * from t where id = 42'', FetchPandasAll, CursorClose],
        cache := (cache demo_world)(''di$ = di erehw t morf * tceles.parquet''
                    \<mapsto> convert_snowflake_response demo_frame),
        printed := printed demo_world @ [''Fetching data from Snowflake...'',
           ''Executing query:\<newline>'' @ ''select * from t where id = 42'']\<rparr>)"
proof (rule fetch_data_miss [OF demo_resolve _ demo_substitute])
  show "execute demo_driver ''select * from t where id = 42'' (warehouse demo_world) = Inr (True, demo_reply 1)"
    by (simp add: demo_driver_def demo_execute_def demo_world_def char_class_defs)
  show "fetch_pandas_all (demo_reply 1) = Inr demo_frame"
    by (simp add: demo_reply_def)
  show "to_parquet demo_driver (convert_snowflake_response demo_frame) = None"
    by (simp add: demo_driver_def)
qed simp

text \<open>
  Claim C3. For an inline query the cache file is named by the hash of the stripped text
  as the caller wrote it, before any substitution: the variable map takes no part. So
  after a call that returned a frame, with whatever variable map, that frame is in the
  cache under this name, and a call with the same text and any other variable map, with
  the cache on, returns the same frame from the cache.
\<close>

theorem cache_key_ignores_variables:
  assumes "\<not> endswith (lower query_input) ''.sql''"
    and "fetch_data drv query_input variables1 use_cache s = (Inr df, s1)"
  shows "cache s1 (md5_hexdigest drv (strip query_input) @ ''.parquet'') = Some df \<and>
         fetch_data drv query_input variables2 True s1 =
           (Inr df, s1\<lparr>printed := printed s1 @ [''Fetching data from Snowflake...'']\<rparr>)"
proof -
  note r = fetch_data_inline_result [OF assms]
  from r show ?thesis
    using fetch_data_hit [of drv query_input s1 "strip query_input"
        "md5_hexdigest drv (strip query_input) @ ''.parquet''" df variables2]
    by simp
qed

theorem cache_key_ignores_variables_witness:
  "cache (snd (fetch_data demo_driver ''select * from t where id = $id'' [''id'' \<mapsto> ''42''] False demo_world))
     (md5_hexdigest demo_driver (strip ''select * from t where id = $id'') @ ''.parquet'')
     = Some (convert_snowflake_response demo_frame) \<and>
   fst (fetch_data demo_driver ''select * from t where id = $id'' [''id'' \<mapsto> ''7''] True
     (snd (fetch_data demo_driver ''select * from t where id = $id'' [''id'' \<mapsto> ''42''] False demo_world)))
     = Inr (convert_snowflake_response demo_frame)"
  using cache_key_ignores_variables [OF demo_not_file demo_fetch, of "[''id'' \<mapsto> ''7'']"]
  by (simp add: demo_fetch)

text \<open>
  Claim C5. An input that is not a file reference is stripped, and unless the stripped
  text begins with \<open>select\<close> or \<open>with\<close> in any letter case \<open>fetch_data\<close> raises the
  validation error, having printed its first line and done nothing else: no session
  call, no cache write. When the text does begin so, the resolution accepts it.
\<close>

theorem fetch_data_validates_inline:
  assumes "\<not> endswith (lower query_input) ''.sql''"
  shows "(\<not> (startswith (lower (strip query_input)) ''select'' \<or>
             startswith (lower (strip query_input)) ''with'')
           \<longrightarrow> fetch_data drv query_input variables use_cache s =
                 (Inl (ValueError validation_message),
                  s\<lparr>printed := printed s @ [''Fetching data from Snowflake...'']\<rparr>)) \<and>
         (startswith (lower (strip query_input)) ''select'' \<or>
          startswith (lower (strip query_input)) ''with''
           \<longrightarrow> resolve_query drv query_input s =
                 (Inr (strip query_input, md5_hexdigest drv (strip query_input) @ ''.parquet''), s))"
  using assms by (simp add: resolve_inline fetch_data_def bnd_def print_def)

lemma demo_delete_not_file: "\<not> endswith (lower '' delete from t'') ''.sql''"
  by (simp add: char_class_defs)

lemma demo_with_not_file: "\<not> endswith (lower '' WITH a as (select 1) select * from a'') ''.sql''"
  by (simp add: char_class_defs)

theorem fetch_data_validates_inline_witness:
  "fetch_data demo_driver '' delete from t'' Map.empty True demo_world =
     (Inl (ValueError validation_message),
      demo_world\<lparr>printed := printed demo_world @ [''Fetching data from Snowflake...'']\<rparr>) \<and>
   resolve_query demo_driver '' WITH a as (select 1) select * from a'' demo_world =
     (Inr (strip '' WITH a as (select 1) select * from a'',
           md5_hexdigest demo_driver (strip '' WITH a as (select 1) select * from a'') @ ''.parquet''),
      demo_world)"
  using fetch_data_validates_inline [OF demo_delete_not_file, of demo_driver Map.empty True demo_world]
    fetch_data_validates_inline [OF demo_with_not_file, of demo_driver Map.empty True demo_world]
  by (simp add: char_class_defs)

section \<open>Cleaning a result\<close>

text \<open>
  Claim C7. When \<open>fetch_data\<close> executes the query (the cache is off or has no file for
  it) and the execution returns a table, the caller gets that table cleaned: the
  columns whose label starts with an underscore are removed, and only those; the labels
  that remain are lowercased; the columns that remain keep their order, their dtypes and
  their cells, and the index keeps its length.
\<close>

theorem fetch_data_hands_cleaned_result:
  assumes "fst (resolve_query drv query_input s) = Inr (query, cache_file)"
    and "\<not> use_cache \<or> cache s cache_file = None"
    and "substitute query variables = Inr sql"
    and "execute drv sql (warehouse s) = Inr (w, cur)"
    and "fetch_pandas_all cur = Inr response"
    and "to_parquet drv (convert_snowflake_response response) = None"
  shows "fst (fetch_data drv query_input variables use_cache s) = Inr (convert_snowflake_response response) \<and>
         map label (columns (convert_snowflake_response response)) =
           map lower (filter (\<lambda>n. \<not> startswith n ''_'') (map label (columns response))) \<and>
         map (\<lambda>c. (dtype_of c, cells c)) (columns (convert_snowflake_response response)) =
           map (\<lambda>c. (dtype_of c, cells c))
             (filter (\<lambda>c. \<not> startswith (label c) ''_'') (columns response)) \<and>
         index_len (convert_snowflake_response response) = index_len response"
  using fetch_data_miss [OF assms] convert_labels [of response] convert_data [of response]
  by (simp add: convert_snowflake_response_def Let_def)

lemma demo_execute_select:
  "execute demo_driver ''select * from t where id = 42'' (warehouse demo_world) = Inr (True, demo_reply 1)"
  by (simp add: demo_driver_def demo_execute_def demo_world_def char_class_defs)

theorem fetch_data_hands_cleaned_result_witness:
  "fst (fetch_data demo_driver ''select * from t where id = $id'' [''id'' \<mapsto> ''42''] False demo_world)
     = Inr (convert_snowflake_response demo_frame) \<and>
   map label (columns demo_frame) = [''_META'', ''Id'', ''PRICE''] \<and>
   map label (columns (convert_snowflake_response demo_frame)) = [''id'', ''price''] \<and>
   map cells (columns (convert_snowflake_response demo_frame)) = [[1, 2], [10, 20]]"
  using fetch_data_hands_cleaned_result [OF demo_resolve _ demo_substitute demo_execute_select,
      of False demo_frame]
  by (simp add: demo_reply_def demo_driver_def demo_convert) (simp add: demo_frame_def)

section \<open>Variable substitution\<close>

lemma word_char_field: "word_char c \<Longrightarrow> field_name_char c"
  by (auto simp: word_char_def field_name_char_def lower_letters_def upper_letters_def digits_def)

lemma word_char_not_brace: "word_char c \<Longrightarrow> c \<noteq> CHR ''{'' \<and> c \<noteq> CHR ''}''"
  by (auto simp: word_char_def lower_letters_def upper_letters_def digits_def)

lemma py_format_literal:
  "c \<noteq> CHR ''{'' \<Longrightarrow> c \<noteq> CHR ''}'' \<Longrightarrow> py_format (c # cs) kw = map_sum id ((#) c) (py_format cs kw)"
  by simp

lemma py_format_field:
  assumes "name \<noteq> []" and "\<forall>c \<in> set name. word_char c"
  shows "py_format (CHR ''{'' # name @ CHR ''}'' # rest) kw =
           (case lookup_field name kw of
              Inl err \<Rightarrow> Inl err
            | Inr v \<Rightarrow> map_sum id ((@) v) (py_format rest kw))"
proof -
  from assms(1) obtain d ds where name: "name = d # ds" by (cases name) auto
  have d: "d \<noteq> CHR ''{''" using assms(2) name word_char_not_brace by auto
  have all: "\<forall>c \<in> set name. field_name_char c" using assms(2) word_char_field by blast
  have nf: "\<not> field_name_char CHR ''}''" by (simp add: field_name_char_def)
  have dw: "dropWhile field_name_char (name @ CHR ''}'' # rest) = CHR ''}'' # rest"
    using all nf by (simp add: dropWhile_append3)
  have tw: "takeWhile field_name_char (name @ CHR ''}'' # rest) = name"
    using all nf by (simp add: takeWhile_tail)
  show ?thesis
    using d dw tw unfolding name by simp
qed

lemma foldl_digits_ge: "acc \<le> foldl (\<lambda>n c. n * 10 + digit_value c) acc xs"
proof (induction xs arbitrary: acc)
  case Nil
  then show ?case by simp
next
  case (Cons x xs)
  have "acc \<le> acc * 10 + digit_value x" by simp
  also have "\<dots> \<le> foldl (\<lambda>n c. n * 10 + digit_value c) (acc * 10 + digit_value x) xs"
    by (rule Cons.IH)
  finally show ?case by simp
qed

text \<open>
  A name with a character that is no digit, whose leading digits stay within
  \<open>PY_SSIZE_T_MAX\<close>, is no number for \<open>get_integer\<close>.
\<close>

lemma get_integer_name:
  assumes "\<not> list_all (\<lambda>c. c \<in> set digits) cs"
    and "foldl (\<lambda>n c. n * 10 + digit_value c) acc (takeWhile (\<lambda>c. c \<in> set digits) cs)
           \<le> py_ssize_t_max"
  shows "get_integer acc cs = Inr None"
  using assms
proof (induction cs arbitrary: acc)
  case Nil
  then show ?case by simp
next
  case (Cons c cs)
  show ?case
  proof (cases "c \<in> set digits")
    case False
    then show ?thesis by simp
  next
    case True
    let ?acc = "acc * 10 + digit_value c"
    have run: "foldl (\<lambda>n c. n * 10 + digit_value c) ?acc (takeWhile (\<lambda>c. c \<in> set digits) cs)
                 \<le> py_ssize_t_max"
      using Cons.prems(2) True by simp
    have "?acc \<le> py_ssize_t_max"
      using foldl_digits_ge [of ?acc "takeWhile (\<lambda>c. c \<in> set digits) cs"] run by linarith
    then have fits: "\<not> acc > (py_ssize_t_max - digit_value c) div 10"
      by (simp add: not_less less_eq_div_iff_mult_less_eq)
    have rest: "\<not> list_all (\<lambda>c. c \<in> set digits) cs"
      using Cons.prems(1) True by simp
    show ?thesis
      using True fits Cons.IH [OF rest run] by simp
  qed
qed

lemma lookup_field_key:
  assumes "name \<noteq> []" and "\<not> list_all (\<lambda>c. c \<in> set digits) name"
    and "leading_number name \<le> py_ssize_t_max"
  shows "lookup_field name kw = (case kw name of None \<Rightarrow> Inl (KeyError name) | Some v \<Rightarrow> Inr v)"
  using assms(1) get_integer_name [OF assms(2), of 0] assms(3)
  by (simp add: lookup_field_def leading_number_def)

text \<open>
  On a text without braces whose identifiers are names for \<open>str.format\<close>, the two passes
  of the code do what one pass over the tokens does, and the error names the first absent
  identifier.
\<close>

lemma substitute_plain:
  assumes "CHR ''{'' \<notin> set q" and "CHR ''}'' \<notin> set q"
    and "\<forall>n \<in> set (variable_tokens q).
           \<not> list_all (\<lambda>c. c \<in> set digits) n \<and> leading_number n \<le> py_ssize_t_max"
  shows "py_format (format_variables q) kw =
           (case find (\<lambda>n. kw n = None) (variable_tokens q) of
              None \<Rightarrow> Inr (replace_tokens kw q)
            | Some n \<Rightarrow> Inl (KeyError n))"
  using assms
proof (induction q rule: format_variables.induct)
  case 1
  then show ?case by simp
next
  case (2 c cs)
  show ?case
  proof (cases "c = CHR ''$'' \<and> takeWhile word_char cs \<noteq> []")
    case True
    let ?name = "takeWhile word_char cs"
    let ?rest = "dropWhile word_char cs"
    have sub: "set ?rest \<subseteq> set cs" by (rule set_dropWhileD [THEN subsetI])
    have nb: "CHR ''{'' \<notin> set ?rest" "CHR ''}'' \<notin> set ?rest"
      using "2.prems"(1,2) sub by auto
    have toks: "variable_tokens (c # cs) = ?name # variable_tokens ?rest"
      using True by simp
    have nd: "\<not> list_all (\<lambda>c. c \<in> set digits) ?name"
      and fits: "leading_number ?name \<le> py_ssize_t_max"
      and rest_nd: "\<forall>n \<in> set (variable_tokens ?rest).
           \<not> list_all (\<lambda>c. c \<in> set digits) n \<and> leading_number n \<le> py_ssize_t_max"
      using "2.prems"(3) toks by auto
    have ih: "py_format (format_variables ?rest) kw =
           (case find (\<lambda>n. kw n = None) (variable_tokens ?rest) of
              None \<Rightarrow> Inr (replace_tokens kw ?rest)
            | Some n \<Rightarrow> Inl (KeyError n))"
      using "2.IH"(1) [OF True nb rest_nd] .
    have words: "\<forall>c \<in> set ?name. word_char c"
      by (auto dest: set_takeWhileD)
    have "py_format (format_variables (c # cs)) kw =
            py_format (CHR ''{'' # ?name @ CHR ''}'' # format_variables ?rest) kw"
      using True by simp
    also have "\<dots> = (case lookup_field ?name kw of
              Inl err \<Rightarrow> Inl err
            | Inr v \<Rightarrow> map_sum id ((@) v) (py_format (format_variables ?rest) kw))"
      using True words by (intro py_format_field) auto
    finally show ?thesis
      using True nd fits ih toks
      by (simp add: lookup_field_key split: option.splits)
  next
    case False
    have c: "c \<noteq> CHR ''{''" "c \<noteq> CHR ''}''" using "2.prems"(1,2) by auto
    have nb: "CHR ''{'' \<notin> set cs" "CHR ''}'' \<notin> set cs" using "2.prems"(1,2) by auto
    have toks: "variable_tokens (c # cs) = variable_tokens cs" using False by auto
    have ih: "py_format (format_variables cs) kw =
           (case find (\<lambda>n. kw n = None) (variable_tokens cs) of
              None \<Rightarrow> Inr (replace_tokens kw cs)
            | Some n \<Rightarrow> Inl (KeyError n))"
      using "2.IH"(2) [OF False nb] "2.prems"(3) toks by simp
    have "format_variables (c # cs) = c # format_variables cs" using False by auto
    then show ?thesis
      using c ih toks False by (auto simp: py_format_literal split: option.splits)
  qed
qed

text \<open>
  Claim C4, as the code has it. For a query text with no brace character in which every
  \<open>$identifier\<close> token has a character that is no digit and leading digits that write a
  number within \<open>PY_SSIZE_T_MAX\<close>, the substitution replaces every token by the value the
  map gives for its identifier, and it raises the missing-key error exactly when some
  identifier of the query is absent from the map, naming the first such identifier.
\<close>

theorem substitute_replaces_tokens:
  assumes "CHR ''{'' \<notin> set query" and "CHR ''}'' \<notin> set query"
    and "\<forall>n \<in> set (variable_tokens query).
           \<not> list_all (\<lambda>c. c \<in> set digits) n \<and> leading_number n \<le> py_ssize_t_max"
  shows "substitute query variables =
           (case find (\<lambda>n. variables n = None) (variable_tokens query) of
              None \<Rightarrow> Inr (replace_tokens variables query)
            | Some n \<Rightarrow> Inl (KeyError n)) \<and>
         ((\<exists>n. substitute query variables = Inl (KeyError n))
            \<longleftrightarrow> \<not> set (variable_tokens query) \<subseteq> dom variables)"
proof -
  have eq: "substitute query variables =
           (case find (\<lambda>n. variables n = None) (variable_tokens query) of
              None \<Rightarrow> Inr (replace_tokens variables query)
            | Some n \<Rightarrow> Inl (KeyError n))"
    unfolding substitute_def by (rule substitute_plain [OF assms])
  have "(find (\<lambda>n. variables n = None) (variable_tokens query) = None)
          \<longleftrightarrow> set (variable_tokens query) \<subseteq> dom variables"
    by (auto simp: find_None_iff dom_def)
  with eq show ?thesis
    by (cases "find (\<lambda>n. variables n = None) (variable_tokens query)") auto
qed

lemma demo_tokens: "variable_tokens ''select * from t where id = $id'' = [''id'']"
  by (simp add: char_class_defs)

theorem substitute_replaces_tokens_witness:
  "substitute ''select * from t where id = $id'' [''id'' \<mapsto> ''42''] = Inr ''select * from t where id = 42'' \<and>
   substitute ''select * from t where id = $id'' Map.empty = Inl (KeyError ''id'')"
  using substitute_replaces_tokens [of "''select * from t where id = $id''" "[''id'' \<mapsto> ''42'']"]
    substitute_replaces_tokens [of "''select * from t where id = $id''" Map.empty]
  by (simp add: demo_tokens digits_def leading_number_def py_ssize_t_max_def)
     (simp add: char_class_defs)

text \<open>
  The claim as the specification states it fails in both directions. A token whose
  identifier is a number is read by \<open>str.format\<close> as a position, so the call raises
  \<open>IndexError\<close> although the map has the identifier; leading digits beyond
  \<open>PY_SSIZE_T_MAX\<close> raise \<open>ValueError\<close> although the map has the identifier; and a brace pair
  the query already contains is a replacement field, so the call raises the missing-key
  error although the query has no \<open>$identifier\<close> token.
\<close>

theorem substitute_claim_counterexample:
  "variable_tokens ''select $1'' = [''1''] \<and>
   [''1'' \<mapsto> ''a''] ''1'' = Some ''a'' \<and>
   substitute ''select $1'' [''1'' \<mapsto> ''a''] = Inl IndexError \<and>
   variable_tokens ''select $9223372036854775808a'' = [''9223372036854775808a''] \<and>
   [''9223372036854775808a'' \<mapsto> ''x''] ''9223372036854775808a'' = Some ''x'' \<and>
   substitute ''select $9223372036854775808a'' [''9223372036854775808a'' \<mapsto> ''x''] =
     Inl (ValueError ''Too many decimal digits in format string'') \<and>
   variable_tokens ''select '{a}' from t'' = [] \<and>
   substitute ''select '{a}' from t'' Map.empty = Inl (KeyError ''a'')"
  by (simp add: substitute_def char_class_defs lookup_field_def py_ssize_t_max_def digit_value_def)

section \<open>Ad-hoc SQL execution\<close>




















section \<open>Table drop\<close>

text \<open>The calls of \<open>drop_table\<close> up to its decision.\<close>

lemma drop_table_run:
  assumes "execute drv (''USE DATABASE '' @ database) (warehouse s) = Inr (w1, r1)"
    and "execute drv (''USE SCHEMA '' @ schema) w1 = Inr (w2, r2)"
    and "execute drv (exists_query schema table_name) w2 = Inr (w3, r3)"
    and "first_cell (fetchone r3) = Inr n"
  shows "drop_table drv database schema table_name s =
     (if n = 0 then
        (Inr (),
         s\<lparr>warehouse := w3,
           session_calls := session_calls s @
             [Cursor, Execute (''USE DATABASE '' @ database), Cursor, Execute (''USE SCHEMA '' @ schema),
              Cursor, Execute (exists_query schema table_name), FetchOne],
           printed := printed s @ [''Table '' @ quoted table_name @ '' does not exist.'']\<rparr>)
      else
        (case execute drv (''DROP TABLE '' @ schema @ ''.'' @ table_name) w3 of
           Inl e \<Rightarrow>
             (Inl e,
              s\<lparr>warehouse := w3,
                session_calls := session_calls s @
                  [Cursor, Execute (''USE DATABASE '' @ database), Cursor, Execute (''USE SCHEMA '' @ schema),
                   Cursor, Execute (exists_query schema table_name), FetchOne,
                   Execute (''DROP TABLE '' @ schema @ ''.'' @ table_name)]\<rparr>)
         | Inr (w4, r4) \<Rightarrow>
             (Inr (),
              s\<lparr>warehouse := w4,
                session_calls := session_calls s @
                  [Cursor, Execute (''USE DATABASE '' @ database), Cursor, Execute (''USE SCHEMA '' @ schema),
                   Cursor, Execute (exists_query schema table_name), FetchOne,
                   Execute (''DROP TABLE '' @ schema @ ''.'' @ table_name)],
                printed := printed s @ [''Table '' @ quoted table_name @ '' dropped.'']\<rparr>)))"
  using assms
  by (simp add: drop_table_def action_defs split: sum.splits prod.splits)

text \<open>A second run, on a warehouse that keeps the contract, finds the first run's result.\<close>

lemma drop_table_again:
  assumes use_db: "execute drv (''USE DATABASE '' @ database) (warehouse s) = Inr (w1, r1)"
    and use_schema: "execute drv (''USE SCHEMA '' @ schema) w1 = Inr (w2, r2)"
    and count: "execute drv (exists_query schema table_name) w2 = Inr (w3, r3)"
    and cell: "first_cell (fetchone r3) = Inr n"
    and contract: "warehouse_contract drv database schema table_name"
    and first: "drop_table drv database schema table_name s = (r, s1)"
    and second: "drop_table drv database schema table_name s1 = (r', s2)"
  shows "warehouse s2 = warehouse s1 \<and>
         (r = Inr () \<longrightarrow>
            r' = Inr () \<and>
            session_calls s2 = session_calls s1 @
              [Cursor, Execute (''USE DATABASE '' @ database), Cursor, Execute (''USE SCHEMA '' @ schema),
               Cursor, Execute (exists_query schema table_name), FetchOne])"
proof -
  have ro: "w3 = w2"
    using contract count unfolding warehouse_contract_def by blast
  have sel2: "selected drv database schema w2"
    using contract use_db use_schema unfolding warehouse_contract_def by blast
  note run1 = drop_table_run [OF use_db use_schema count cell]
  show ?thesis
  proof (cases "n = 0")
    case True
    with run1 first have w: "warehouse s1 = w2" and r: "r = Inr ()"
      using ro by auto
    from sel2 obtain a b where
      a: "execute drv (''USE DATABASE '' @ database) (warehouse s1) = Inr (w2, a)"
      and b: "execute drv (''USE SCHEMA '' @ schema) w2 = Inr (w2, b)"
      unfolding selected_def w by blast
    from drop_table_run [OF a b count cell] second True ro show ?thesis
      using w by auto
  next
    case False
    show ?thesis
    proof (cases "execute drv (''DROP TABLE '' @ schema @ ''.'' @ table_name) w3")
      case (Inl e)
      with run1 first False have w: "warehouse s1 = w2" and r: "r = Inl e"
        using ro by auto
      from sel2 obtain a b where
        a: "execute drv (''USE DATABASE '' @ database) (warehouse s1) = Inr (w2, a)"
        and b: "execute drv (''USE SCHEMA '' @ schema) w2 = Inr (w2, b)"
        unfolding selected_def w by blast
      from drop_table_run [OF a b count cell] second False Inl ro show ?thesis
        using w r by auto
    next
      case (Inr p)
      then obtain w4 r4 where
        d: "execute drv (''DROP TABLE '' @ schema @ ''.'' @ table_name) w2 = Inr (w4, r4)"
        using ro by (cases p) auto
      with run1 first False ro have w: "warehouse s1 = w4" and r: "r = Inr ()"
        by auto
      from contract sel2 d obtain r5 rest where
        sel4: "selected drv database schema w4"
        and c4: "execute drv (exists_query schema table_name) w4 = Inr (w4, r5)"
        and f4: "fetchone r5 = Some (0 # rest)"
        unfolding warehouse_contract_def by blast
      from sel4 obtain a b where
        a: "execute drv (''USE DATABASE '' @ database) (warehouse s1) = Inr (w4, a)"
        and b: "execute drv (''USE SCHEMA '' @ schema) w4 = Inr (w4, b)"
        unfolding selected_def w by blast
      have cell4: "first_cell (fetchone r5) = Inr 0"
        using f4 by (simp add: first_cell_def)
      from drop_table_run [OF a b c4 cell4] second show ?thesis
        using w by auto
    qed
  qed
qed

text \<open>
  Claim C8. \<open>drop_table\<close> selects the context and asks the catalog. When the count is
  zero it returns without raising, having sent no \<open>DROP TABLE\<close>; when the count is not
  zero it sends the \<open>DROP TABLE\<close>. On a warehouse that keeps the contract above, a
  second run leaves the warehouse as the first run left it, and after a first run that
  returned the second returns too and sends no \<open>DROP TABLE\<close>.
\<close>

theorem drop_table_conditional_and_idempotent:
  assumes "execute drv (''USE DATABASE '' @ database) (warehouse s) = Inr (w1, r1)"
    and "execute drv (''USE SCHEMA '' @ schema) w1 = Inr (w2, r2)"
    and "execute drv (exists_query schema table_name) w2 = Inr (w3, r3)"
    and "first_cell (fetchone r3) = Inr n"
  shows "(n = 0 \<longrightarrow>
            drop_table drv database schema table_name s =
              (Inr (),
               s\<lparr>warehouse := w3,
                 session_calls := session_calls s @
                   [Cursor, Execute (''USE DATABASE '' @ database), Cursor, Execute (''USE SCHEMA '' @ schema),
                    Cursor, Execute (exists_query schema table_name), FetchOne],
                 printed := printed s @ [''Table '' @ quoted table_name @ '' does not exist.'']\<rparr>)) \<and>
         (n \<noteq> 0 \<longrightarrow>
            session_calls (snd (drop_table drv database schema table_name s)) =
              session_calls s @
                [Cursor, Execute (''USE DATABASE '' @ database), Cursor, Execute (''USE SCHEMA '' @ schema),
                 Cursor, Execute (exists_query schema table_name), FetchOne,
                 Execute (''DROP TABLE '' @ schema @ ''.'' @ table_name)]) \<and>
         (warehouse_contract drv database schema table_name \<longrightarrow>
            warehouse (snd (drop_table drv database schema table_name
                         (snd (drop_table drv database schema table_name s)))) =
              warehouse (snd (drop_table drv database schema table_name s)) \<and>
            (fst (drop_table drv database schema table_name s) = Inr () \<longrightarrow>
               fst (drop_table drv database schema table_name
                     (snd (drop_table drv database schema table_name s))) = Inr () \<and>
               session_calls (snd (drop_table drv database schema table_name
                     (snd (drop_table drv database schema table_name s)))) =
                 session_calls (snd (drop_table drv database schema table_name s)) @
                   [Cursor, Execute (''USE DATABASE '' @ database), Cursor, Execute (''USE SCHEMA '' @ schema),
                    Cursor, Execute (exists_query schema table_name), FetchOne]))"
proof -
  note run = drop_table_run [OF assms]
  have a: "n = 0 \<longrightarrow>
            drop_table drv database schema table_name s =
              (Inr (),
               s\<lparr>warehouse := w3,
                 session_calls := session_calls s @
                   [Cursor, Execute (''USE DATABASE '' @ database), Cursor, Execute (''USE SCHEMA '' @ schema),
                    Cursor, Execute (exists_query schema table_name), FetchOne],
                 printed := printed s @ [''Table '' @ quoted table_name @ '' does not exist.'']\<rparr>)"
    using run by simp
  have b: "n \<noteq> 0 \<longrightarrow>
            session_calls (snd (drop_table drv database schema table_name s)) =
              session_calls s @
                [Cursor, Execute (''USE DATABASE '' @ database), Cursor, Execute (''USE SCHEMA '' @ schema),
                 Cursor, Execute (exists_query schema table_name), FetchOne,
                 Execute (''DROP TABLE '' @ schema @ ''.'' @ table_name)]"
    using run by (auto split: sum.splits)
  have again: "warehouse (snd (drop_table drv database schema table_name
                      (snd (drop_table drv database schema table_name s)))) =
           warehouse (snd (drop_table drv database schema table_name s)) \<and>
         (fst (drop_table drv database schema table_name s) = Inr () \<longrightarrow>
            fst (drop_table drv database schema table_name
                  (snd (drop_table drv database schema table_name s))) = Inr () \<and>
            session_calls (snd (drop_table drv database schema table_name
                  (snd (drop_table drv database schema table_name s)))) =
              session_calls (snd (drop_table drv database schema table_name s)) @
                [Cursor, Execute (''USE DATABASE '' @ database), Cursor, Execute (''USE SCHEMA '' @ schema),
                 Cursor, Execute (exists_query schema table_name), FetchOne])"
    if "warehouse_contract drv database schema table_name"
    by (rule drop_table_again [OF assms that]) simp_all
  from a b again show ?thesis by blast
qed

lemma demo_use_database: "execute demo_driver ''USE DATABASE DB'' w = Inr (w, demo_reply 0)"
  by (simp add: demo_driver_def demo_execute_def startswith_def)

lemma demo_use_schema: "execute demo_driver ''USE SCHEMA PUBLIC'' w = Inr (w, demo_reply 0)"
  by (simp add: demo_driver_def demo_execute_def startswith_def)

lemma demo_drop: "execute demo_driver ''DROP TABLE PUBLIC.t'' w =
     (if w then Inr (False, demo_reply 0) else Inl (DriverError ''Table does not exist''))"
  by (simp add: demo_driver_def demo_execute_def startswith_def)

lemma demo_execute_use_database:
  "execute demo_driver (''USE DATABASE '' @ ''DB'') w = Inr (w, demo_reply 0)"
  by (simp add: demo_use_database)

lemma demo_execute_use_schema:
  "execute demo_driver (''USE SCHEMA '' @ ''PUBLIC'') w = Inr (w, demo_reply 0)"
  by (simp add: demo_use_schema)

lemma demo_execute_count:
  "execute demo_driver (exists_query ''PUBLIC'' ''t'') w = Inr (w, demo_reply (if w then 1 else 0))"
  by (simp add: demo_driver_def demo_execute_def exists_query_def quoted_def char_class_defs)

lemma demo_contract: "warehouse_contract demo_driver ''DB'' ''PUBLIC'' ''t''"
  unfolding warehouse_contract_def selected_def
  by (simp add: demo_use_database demo_use_schema demo_execute_count demo_drop demo_reply_def)

lemma demo_first_cell: "first_cell (fetchone (demo_reply n)) = Inr n"
  by (simp add: first_cell_def demo_reply_def)

lemma demo_drop_present:
  "drop_table demo_driver ''DB'' ''PUBLIC'' ''t'' demo_world =
     (Inr (),
      demo_world\<lparr>warehouse := False,
        session_calls :=
          [Cursor, Execute ''USE DATABASE DB'', Cursor, Execute ''USE SCHEMA PUBLIC'',
           Cursor, Execute (exists_query ''PUBLIC'' ''t''), FetchOne, Execute ''DROP TABLE PUBLIC.t''],
        printed := [''Table '' @ quoted ''t'' @ '' dropped.'']\<rparr>)"
  using drop_table_run [of demo_driver "''DB''" demo_world True "demo_reply 0" "''PUBLIC''" True
      "demo_reply 0" "''t''" True "demo_reply 1" 1]
  by (simp add: demo_use_database demo_use_schema demo_execute_count demo_drop demo_first_cell
      demo_world_def)

theorem drop_table_conditional_and_idempotent_witness:
  "drop_table demo_driver ''DB'' ''PUBLIC'' ''t'' (demo_world\<lparr>warehouse := False\<rparr>) =
     (Inr (),
      demo_world\<lparr>warehouse := False,
        session_calls := session_calls demo_world @
          [Cursor, Execute (''USE DATABASE '' @ ''DB''), Cursor, Execute (''USE SCHEMA '' @ ''PUBLIC''),
           Cursor, Execute (exists_query ''PUBLIC'' ''t''), FetchOne],
        printed := printed demo_world @ [''Table '' @ quoted ''t'' @ '' does not exist.'']\<rparr>) \<and>
   session_calls (snd (drop_table demo_driver ''DB'' ''PUBLIC'' ''t'' demo_world)) =
     [Cursor, Execute ''USE DATABASE DB'', Cursor, Execute ''USE SCHEMA PUBLIC'',
      Cursor, Execute (exists_query ''PUBLIC'' ''t''), FetchOne, Execute ''DROP TABLE PUBLIC.t''] \<and>
   warehouse (snd (drop_table demo_driver ''DB'' ''PUBLIC'' ''t''
       (snd (drop_table demo_driver ''DB'' ''PUBLIC'' ''t'' demo_world)))) = False \<and>
   fst (drop_table demo_driver ''DB'' ''PUBLIC'' ''t''
       (snd (drop_table demo_driver ''DB'' ''PUBLIC'' ''t'' demo_world))) = Inr ()"
  using drop_table_conditional_and_idempotent
      [OF demo_execute_use_database demo_execute_use_schema demo_execute_count demo_first_cell,
       of "demo_world\<lparr>warehouse := False\<rparr>"]
    drop_table_conditional_and_idempotent
      [OF demo_execute_use_database demo_execute_use_schema demo_execute_count demo_first_cell,
       of demo_world]
    demo_contract
  by (simp add: demo_drop_present)

section \<open>Table export\<close>

text \<open>What an action leaves alone, step by step.\<close>

lemma keeps_bnd:
  assumes "\<And>s. proj (snd (m s)) = proj s" and "\<And>x s. proj (snd (f x s)) = proj s"
  shows "proj (snd (bnd m f s)) = proj s"
proof (cases "m s")
  case (Pair r s1)
  with assms(1) [of s] have s1: "proj s1 = proj s" by simp
  show ?thesis
    using Pair s1 assms(2) by (cases r) (auto simp: bnd_def)
qed

lemma keeps_if:
  assumes "c \<Longrightarrow> proj (snd (a s)) = proj s" and "\<not> c \<Longrightarrow> proj (snd (b s)) = proj s"
  shows "proj (snd ((if c then a else b) s)) = proj s"
  using assms by simp

lemma keeps_frames:
  "frames (snd (return x s)) = frames s"
  "frames (snd (raise e s)) = frames s"
  "frames (snd (lift r s)) = frames s"
  "frames (snd (print msg s)) = frames s"
  "frames (snd (logged c s)) = frames s"
  "frames (snd (conn_cursor s)) = frames s"
  "frames (snd (cursor_execute drv sql s)) = frames s"
  "frames (snd (cursor_fetchone cur s)) = frames s"
  "frames (snd (read_frame ref s)) = frames s"
  "frames (snd (conn_write_pandas drv t df s)) = frames s"
  by (auto simp: action_defs split: sum.splits prod.splits)

lemma keeps_cache:
  "cache (snd (return x s)) = cache s"
  "cache (snd (raise e s)) = cache s"
  "cache (snd (lift r s)) = cache s"
  "cache (snd (print msg s)) = cache s"
  "cache (snd (logged c s)) = cache s"
  "cache (snd (conn_cursor s)) = cache s"
  "cache (snd (cursor_execute drv sql s)) = cache s"
  "cache (snd (cursor_fetchone cur s)) = cache s"
  "cache (snd (read_frame ref s)) = cache s"
  "cache (snd (conn_write_pandas drv t df s)) = cache s"
  by (auto simp: action_defs split: sum.splits prod.splits)

lemma drop_table_frames:
  "frames (snd (drop_table drv database schema table_name s)) = frames s"
  unfolding drop_table_def
  by (intro keeps_bnd [where proj = frames] keeps_if [where proj = frames] keeps_frames)

lemma drop_table_cache:
  "cache (snd (drop_table drv database schema table_name s)) = cache s"
  unfolding drop_table_def
  by (intro keeps_bnd [where proj = cache] keeps_if [where proj = cache] keeps_cache)


lemma keeps_case_prod:
  assumes "\<And>a b. proj (snd (f a b s)) = proj s"
  shows "proj (snd ((case p of (a, b) \<Rightarrow> f a b) s)) = proj s"
  using assms by (cases p) simp

lemma step_bnd:
  assumes "\<And>s. proj (snd (m s)) = g (proj s)" and "\<And>x s. proj (snd (f x s)) = proj s"
  shows "proj (snd (bnd m f s)) = g (proj s)"
proof (cases "m s")
  case (Pair r s1)
  with assms(1) [of s] have s1: "proj s1 = g (proj s)" by simp
  show ?thesis
    using Pair s1 assms(2) by (cases r) (auto simp: bnd_def)
qed

lemma bnd_return: "bnd (return x) f s = f x s"
  by (simp add: bnd_def return_def)

lemma bnd_read_frame: "bnd (read_frame ref) f s = f (frames s ref) s"
  by (simp add: bnd_def read_frame_def)

lemma bnd_unfold:
  "bnd m f s = (case m s of (Inl e, s') \<Rightarrow> (Inl e, s') | (Inr x, s') \<Rightarrow> f x s')"
  by (simp add: bnd_def)

lemma export_data_drop_first:
  "export_data drv df database schema table_name False s =
     (case drop_table drv database schema table_name s of
        (Inl e, s') \<Rightarrow> (Inl e, s')
      | (Inr u, s') \<Rightarrow> export_data drv df database schema table_name True s')"
  apply (simp only: export_data_def not_False_eq_True not_True_eq_False if_True if_False bnd_return)
  apply (subst bnd_unfold)
  apply (rule refl)
  done

lemma export_data_append_empty:
  assumes "frame_empty (frames s df)"
  shows "export_data drv df database schema table_name True s =
           (Inr (), s\<lparr>printed := printed s @ [''DataFrame is empty. No data to export.'']\<rparr>)"
  unfolding export_data_def
  by (simp only: not_True_eq_False if_False if_True bnd_return bnd_read_frame assms)
     (simp add: print_def)

lemma export_data_append_frames:
  assumes "\<not> frame_empty (frames s df)"
  shows "frames (snd (export_data drv df database schema table_name True s)) =
           (frames s)(df := relabel upper (frames s df))"
  unfolding export_data_def
  apply (simp only: not_True_eq_False if_False bnd_return bnd_read_frame assms)
  apply (rule step_bnd [where proj = frames and g = "\<lambda>fr. fr(df := relabel upper (fr df))"])
   apply (simp add: assign_columns_def)
  apply (intro keeps_bnd [where proj = frames] keeps_if [where proj = frames]
      keeps_case_prod [where proj = frames] keeps_frames)
  done

lemma relabel_fixed:
  "relabel f d = d \<longleftrightarrow> (\<forall>c \<in> set (columns d). f (label c) = label c)"
proof -
  have col: "c\<lparr>label := l\<rparr> = c \<longleftrightarrow> l = label c" for c :: "'a column" and l
    by (cases c) simp
  have "relabel f d = d \<longleftrightarrow> map (\<lambda>c. c\<lparr>label := f (label c)\<rparr>) (columns d) = map (\<lambda>c. c) (columns d)"
    by (cases d) (simp add: relabel_def)
  also have "\<dots> \<longleftrightarrow> (\<forall>c \<in> set (columns d). c\<lparr>label := f (label c)\<rparr> = c)"
    by (rule map_eq_conv)
  finally show ?thesis
    by (simp add: col)
qed

text \<open>
  Claim C1, as the code has it. With an empty frame and \<open>append\<close> on, \<open>export_data\<close> prints
  its line and returns: no session call, the warehouse and the cache as they were. With
  \<open>append\<close> off it first runs \<open>drop_table\<close> (the context statements, the catalog query and
  the \<open>DROP TABLE\<close> when the table is there) and then, unless that raised, prints its line
  and returns: nothing is created or written. The cache and the caller's frames are
  unchanged either way.
\<close>

theorem export_data_empty_rows:
  assumes "frame_empty (frames s df)"
  shows "export_data drv df database schema table_name True s =
           (Inr (), s\<lparr>printed := printed s @ [''DataFrame is empty. No data to export.'']\<rparr>) \<and>
         export_data drv df database schema table_name False s =
           (case drop_table drv database schema table_name s of
              (Inl e, s') \<Rightarrow> (Inl e, s')
            | (Inr u, s') \<Rightarrow>
                (Inr (), s'\<lparr>printed := printed s' @ [''DataFrame is empty. No data to export.'']\<rparr>)) \<and>
         cache (snd (export_data drv df database schema table_name append_flag s)) = cache s \<and>
         frames (snd (export_data drv df database schema table_name append_flag s)) = frames s"
proof -
  obtain r s1 where d: "drop_table drv database schema table_name s = (r, s1)"
    by (cases "drop_table drv database schema table_name s") auto
  have fr: "frames s1 = frames s" and ca: "cache s1 = cache s"
    using drop_table_frames [of drv database schema table_name s]
      drop_table_cache [of drv database schema table_name s] d by simp_all
  have empty1: "frame_empty (frames s1 df)" using assms fr by simp
  note on = export_data_append_empty [OF assms, of drv database schema table_name]
  note on1 = export_data_append_empty [OF empty1, of drv database schema table_name]
  have off: "export_data drv df database schema table_name False s =
           (case r of Inl e \<Rightarrow> (Inl e, s1)
            | Inr u \<Rightarrow> (Inr (), s1\<lparr>printed := printed s1 @ [''DataFrame is empty. No data to export.'']\<rparr>))"
    using d on1 by (simp add: export_data_drop_first split: sum.splits)
  show ?thesis
  proof (cases append_flag)
    case True
    with on off d show ?thesis by (simp split: sum.splits)
  next
    case False
    with on off d fr ca show ?thesis by (auto split: sum.splits)
  qed
qed

lemma demo_empty_frame: "frame_empty (frames demo_world 0)"
  by (simp add: demo_world_def frame_empty_def)

lemma demo_export_empty_replace:
  "export_data demo_driver 0 ''DB'' ''PUBLIC'' ''t'' False demo_world =
     (Inr (),
      demo_world\<lparr>warehouse := False,
        session_calls :=
          [Cursor, Execute ''USE DATABASE DB'', Cursor, Execute ''USE SCHEMA PUBLIC'',
           Cursor, Execute (exists_query ''PUBLIC'' ''t''), FetchOne, Execute ''DROP TABLE PUBLIC.t''],
        printed := [''Table '' @ quoted ''t'' @ '' dropped.'', ''DataFrame is empty. No data to export.'']\<rparr>)"
  using export_data_append_empty [of "demo_world\<lparr>warehouse := False,
        session_calls :=
          [Cursor, Execute ''USE DATABASE DB'', Cursor, Execute ''USE SCHEMA PUBLIC'',
           Cursor, Execute (exists_query ''PUBLIC'' ''t''), FetchOne, Execute ''DROP TABLE PUBLIC.t''],
        printed := [''Table '' @ quoted ''t'' @ '' dropped.'']\<rparr>" 0 demo_driver "''DB''" "''PUBLIC''" "''t''"]
  by (simp add: export_data_drop_first demo_drop_present) (simp add: demo_world_def frame_empty_def)

lemma demo_world_calls: "session_calls demo_world = []"
  by (simp add: demo_world_def)

theorem export_data_empty_rows_witness:
  "export_data demo_driver 0 ''DB'' ''PUBLIC'' ''t'' True demo_world =
     (Inr (), demo_world\<lparr>printed := printed demo_world @ [''DataFrame is empty. No data to export.'']\<rparr>) \<and>
   session_calls (snd (export_data demo_driver 0 ''DB'' ''PUBLIC'' ''t'' True demo_world)) = [] \<and>
   cache (snd (export_data demo_driver 0 ''DB'' ''PUBLIC'' ''t'' False demo_world)) = cache demo_world"
proof -
  note t = export_data_empty_rows [OF demo_empty_frame, of demo_driver "''DB''" "''PUBLIC''" "''t''" False]
  from t have a: "export_data demo_driver 0 ''DB'' ''PUBLIC'' ''t'' True demo_world =
     (Inr (), demo_world\<lparr>printed := printed demo_world @ [''DataFrame is empty. No data to export.'']\<rparr>)"
    by (rule conjunct1)
  from t have c: "cache (snd (export_data demo_driver 0 ''DB'' ''PUBLIC'' ''t'' False demo_world)) = cache demo_world"
    by blast
  from a have b: "session_calls (snd (export_data demo_driver 0 ''DB'' ''PUBLIC'' ''t'' True demo_world)) = []"
    by (simp add: demo_world_calls)
  from a b c show ?thesis by blast
qed

text \<open>
  The claim as the specification states it, for any \<open>append\<close> flag, fails with \<open>append\<close>
  off: the frame is empty, and yet the catalog is queried and the table is dropped.
\<close>

theorem export_data_empty_counterexample:
  "frame_empty (frames demo_world 0) \<and>
   warehouse demo_world = True \<and>
   warehouse (snd (export_data demo_driver 0 ''DB'' ''PUBLIC'' ''t'' False demo_world)) = False \<and>
   session_calls demo_world = [] \<and>
   session_calls (snd (export_data demo_driver 0 ''DB'' ''PUBLIC'' ''t'' False demo_world)) =
     [Cursor, Execute ''USE DATABASE DB'', Cursor, Execute ''USE SCHEMA PUBLIC'',
      Cursor, Execute (exists_query ''PUBLIC'' ''t''), FetchOne, Execute ''DROP TABLE PUBLIC.t'']"
  by (simp add: demo_export_empty_replace demo_empty_frame) (simp add: demo_world_def)

text \<open>
  Claim C10, as the code has it. For a frame that is not empty, once the preliminary
  \<open>drop_table\<close> (run when \<open>append\<close> is off) has not raised, \<open>export_data\<close> replaces every
  column label of the caller's object by its uppercase form, whatever happens in the
  later steps, and touches no other object. The object is as it was exactly when every
  label was uppercase already.
\<close>

theorem export_data_uppercases_in_place:
  assumes "\<not> frame_empty (frames s df)"
    and "append_flag \<or> fst (drop_table drv database schema table_name s) = Inr ()"
  shows "frames (snd (export_data drv df database schema table_name append_flag s)) =
           (frames s)(df := relabel upper (frames s df)) \<and>
         map label (columns (frames (snd (export_data drv df database schema table_name append_flag s)) df)) =
           map upper (map label (columns (frames s df))) \<and>
         (frames (snd (export_data drv df database schema table_name append_flag s)) df = frames s df
            \<longleftrightarrow> (\<forall>c \<in> set (columns (frames s df)). upper (label c) = label c))"
proof -
  have main: "frames (snd (export_data drv df database schema table_name append_flag s)) =
           (frames s)(df := relabel upper (frames s df))"
  proof (cases append_flag)
    case True
    then show ?thesis using export_data_append_frames [OF assms(1)] by simp
  next
    case False
    obtain r s1 where d: "drop_table drv database schema table_name s = (r, s1)"
      by (cases "drop_table drv database schema table_name s") auto
    with assms(2) False have r: "r = Inr ()" by simp
    have fr: "frames s1 = frames s"
      using drop_table_frames [of drv database schema table_name s] d by simp
    have "\<not> frame_empty (frames s1 df)" using assms(1) fr by simp
    from export_data_append_frames [OF this, of drv database schema table_name]
    show ?thesis
      using False d r fr by (simp add: export_data_drop_first)
  qed
  have labels: "map label (columns (relabel upper (frames s df))) = map upper (map label (columns (frames s df)))"
    by (simp add: relabel_def comp_def)
  show ?thesis
    using main labels relabel_fixed [of upper "frames s df"] by simp
qed

lemma demo_frame_not_empty: "\<not> frame_empty (frames demo_world 1)"
  by (simp add: demo_world_def demo_frame_def frame_empty_def)

lemma demo_frame_labels: "map label (columns (frames demo_world 1)) = [''_META'', ''Id'', ''PRICE'']"
  by (simp add: demo_world_def demo_frame_def)

lemma demo_upper_labels: "map upper [''_META'', ''Id'', ''PRICE''] = [''_META'', ''ID'', ''PRICE'']"
  by (simp add: char_class_defs)

theorem export_data_uppercases_in_place_witness:
  "map label (columns (frames demo_world 1)) = [''_META'', ''Id'', ''PRICE''] \<and>
   map label (columns (frames (snd (export_data demo_driver 1 ''DB'' ''PUBLIC'' ''t'' True demo_world)) 1))
     = [''_META'', ''ID'', ''PRICE''] \<and>
   frames (snd (export_data demo_driver 1 ''DB'' ''PUBLIC'' ''t'' True demo_world)) 1 \<noteq> frames demo_world 1"
proof -
  note t = export_data_uppercases_in_place [OF demo_frame_not_empty, of True demo_driver "''DB''" "''PUBLIC''" "''t''"]
  from t have labels:
    "map label (columns (frames (snd (export_data demo_driver 1 ''DB'' ''PUBLIC'' ''t'' True demo_world)) 1))
       = map upper (map label (columns (frames demo_world 1)))"
    by (simp add: relabel_def)
  then have up:
    "map label (columns (frames (snd (export_data demo_driver 1 ''DB'' ''PUBLIC'' ''t'' True demo_world)) 1))
       = [''_META'', ''ID'', ''PRICE'']"
    by (simp only: demo_frame_labels demo_upper_labels)
  have "frames (snd (export_data demo_driver 1 ''DB'' ''PUBLIC'' ''t'' True demo_world)) 1 \<noteq> frames demo_world 1"
  proof
    assume "frames (snd (export_data demo_driver 1 ''DB'' ''PUBLIC'' ''t'' True demo_world)) 1 = frames demo_world 1"
    with up have "map label (columns (frames demo_world 1)) = [''_META'', ''ID'', ''PRICE'']" by simp
    then show False unfolding demo_frame_labels by simp
  qed
  with up demo_frame_labels show ?thesis by blast
qed

text \<open>
  The claim as the specification states it fails for a frame that is not empty in two
  ways. When the labels are uppercase already the object is as it was after the call;
  and with \<open>append\<close> off, on a session whose first statement raises, the call ends in
  \<open>drop_table\<close> before the labels are touched.
\<close>

lemma demo_upper_twice: "relabel upper (relabel upper demo_frame) = relabel upper demo_frame"
  by (simp add: relabel_def demo_frame_def char_class_defs)

lemma demo_drop_table_raises:
  "drop_table (demo_driver\<lparr>execute := \<lambda>sql w. Inl (DriverError ''Connection lost'')\<rparr>)
      ''DB'' ''PUBLIC'' ''t'' demo_world =
     (Inl (DriverError ''Connection lost''),
      demo_world\<lparr>session_calls := [Cursor, Execute ''USE DATABASE DB'']\<rparr>)"
  by (simp add: drop_table_def action_defs demo_world_def)

theorem export_data_mutation_counterexample:
  "\<not> frame_empty (relabel upper demo_frame) \<and>
   frames (snd (export_data demo_driver 1 ''DB'' ''PUBLIC'' ''t'' True
       (demo_world\<lparr>frames := \<lambda>ref. relabel upper demo_frame\<rparr>))) 1 = relabel upper demo_frame \<and>
   \<not> frame_empty (frames demo_world 1) \<and>
   fst (export_data (demo_driver\<lparr>execute := \<lambda>sql w. Inl (DriverError ''Connection lost'')\<rparr>)
       1 ''DB'' ''PUBLIC'' ''t'' False demo_world) = Inl (DriverError ''Connection lost'') \<and>
   map label (columns (frames (snd (export_data
       (demo_driver\<lparr>execute := \<lambda>sql w. Inl (DriverError ''Connection lost'')\<rparr>)
       1 ''DB'' ''PUBLIC'' ''t'' False demo_world)) 1)) = [''_META'', ''Id'', ''PRICE'']"
proof -
  have ne: "\<not> frame_empty (relabel upper demo_frame)"
    by (simp add: relabel_def demo_frame_def frame_empty_def)
  then have "\<not> frame_empty (frames (demo_world\<lparr>frames := \<lambda>ref. relabel upper demo_frame\<rparr>) 1)"
    by simp
  from export_data_append_frames [OF this, of demo_driver "''DB''" "''PUBLIC''" "''t''"]
  have same: "frames (snd (export_data demo_driver 1 ''DB'' ''PUBLIC'' ''t'' True
       (demo_world\<lparr>frames := \<lambda>ref. relabel upper demo_frame\<rparr>))) 1 = relabel upper demo_frame"
    by (simp add: demo_upper_twice)
  have raised: "export_data (demo_driver\<lparr>execute := \<lambda>sql w. Inl (DriverError ''Connection lost'')\<rparr>)
       1 ''DB'' ''PUBLIC'' ''t'' False demo_world =
     (Inl (DriverError ''Connection lost''),
      demo_world\<lparr>session_calls := [Cursor, Execute ''USE DATABASE DB'']\<rparr>)"
    by (simp add: export_data_drop_first demo_drop_table_raises)
  show ?thesis
    using ne same raised demo_frame_not_empty demo_frame_labels by simp
qed

end
